theory Spec2Isabelle
  imports Main "HOL-Library.Word"
begin

section \<open>Data model\<close>

text \<open>
  Go's \<open>int64\<close> is a 64-bit machine integer. The pipeline only moves such values
  around (the zero value \<open>0\<close>, the echoed message), it never does arithmetic on them.
\<close>

type_synonym int64 = "64 word"

text \<open>
  \<open>codes.Code\<close> of the gRPC library is a \<open>uint32\<close>; the three codes the transport
  names are \<open>OK = 0\<close>, \<open>Unknown = 2\<close> and \<open>Internal = 13\<close>.
\<close>

type_synonym Code = "32 word"

definition codes_OK :: Code where
  "codes_OK = 0"

definition codes_Unknown :: Code where
  "codes_Unknown = 2"

definition codes_Internal :: Code where
  "codes_Internal = 13"

text \<open>
  A Go \<open>error\<close> is an interface value; \<open>nil\<close> is \<open>None\<close> of \<open>error option\<close>.
  The non-nil errors the pipeline can tell apart are: an error that carries a gRPC
  status (code and message), the three sentinel errors of the admission-control
  middlewares, and any other error, identified by its \<open>Error()\<close> text.
\<close>

datatype error =
    StatusError Code string
  | ErrLimited
  | ErrOpenState
  | ErrTooManyRequests
  | DomainError string

fun error_Error :: "error \<Rightarrow> string" where
  "error_Error (StatusError c m) = m"
| "error_Error ErrLimited = ''rate limit exceeded''"
| "error_Error ErrOpenState = ''circuit breaker is open''"
| "error_Error ErrTooManyRequests = ''too many requests''"
| "error_Error (DomainError m) = m"

text \<open>\<open>PreambleRequest\<close> (requests.go) and \<open>PreambleResponse\<close> (responses).\<close>

record PreambleRequest =
  Msg :: int64

record PreambleResponse =
  Rs :: int64
  Err :: "error option"

text \<open>
  \<open>func (r PreambleRequest) validate() error { return nil }\<close>, as requests.go of the
  \<open>preamblesvc\<close> package has it.
\<close>

definition validate :: "PreambleRequest \<Rightarrow> error option" where
  "validate r = None"

text \<open>\<open>StatusCode()\<close> returns \<open>http.StatusOK\<close>, which is 200, whatever the response.\<close>

definition http_StatusOK :: int where
  "http_StatusOK = 200"

definition StatusCode :: "PreambleResponse \<Rightarrow> int" where
  "StatusCode r = http_StatusOK"

text \<open>\<open>Headers()\<close> returns a fresh, empty \<open>http.Header\<close> (a map from names to value lists).\<close>

definition Headers :: "PreambleResponse \<Rightarrow> (string \<rightharpoonup> string list)" where
  "Headers r = Map.empty"

text \<open>
  The values that travel through an endpoint as \<open>interface{}\<close>: the nil interface, a
  request, a response, or a value of some other dynamic type (named by that type).
\<close>

datatype any =
    AnyNil
  | AnyPreambleRequest PreambleRequest
  | AnyPreambleResponse PreambleResponse
  | AnyOther string

text \<open>A failed type assertion \<open>x.(T)\<close> panics.\<close>

datatype panic = InterfaceConversion

section \<open>Service and endpoint\<close>

text \<open>
  The service interface has one method, \<open>Preamble(ctx, msg) (rs, err)\<close>. An
  implementation may have effects, so a service is a function on an explicit state
  \<open>'w\<close> that returns the new state. An \<open>endpoint.Endpoint\<close> is a function
  \<open>(ctx, request) \<rightarrow> (response, error)\<close> on \<open>interface{}\<close> values that may panic.
\<close>

type_synonym ('c, 'w) Service = "'c \<Rightarrow> int64 \<Rightarrow> 'w \<Rightarrow> (int64 \<times> error option) \<times> 'w"

type_synonym ('c, 'w) Endpoint = "'c \<Rightarrow> any \<Rightarrow> 'w \<Rightarrow> (panic + any \<times> error option) \<times> 'w"

text \<open>
  The stub service (service.go): \<open>return msg, err\<close>, where \<open>err\<close> is the named
  result, never assigned, so it holds the zero value \<open>nil\<close>.
\<close>

definition stubPreamblesvcService_Preamble :: "('c, 'w) Service" where
  "stubPreamblesvcService_Preamble ctx msg w = (let err = None in ((msg, err), w))"

text \<open>
  \<open>MakePreambleEndpoint\<close> (endpoints.go). The request is narrowed by a type
  assertion, validated, and the service is called only when validation passes. The
  response is built as \<open>PreambleResponse{}\<close> or \<open>PreambleResponse{Rs: rs}\<close>: the
  \<open>Err\<close> field keeps its zero value in both. The \<open>validate\<close> method belongs to the
  request type, which each generated package declares in a file of its own; it is a
  parameter here, and \<^const>\<open>validate\<close> above is the instance the generator
  emits. The service parameter is any implementation of the service interface.
\<close>

definition MakePreambleEndpoint ::
  "(PreambleRequest \<Rightarrow> error option) \<Rightarrow> ('c, 'w) Service \<Rightarrow> ('c, 'w) Endpoint" where
  "MakePreambleEndpoint vld svc ctx request w =
     (case request of
        AnyPreambleRequest req \<Rightarrow>
          (case vld req of
             Some err \<Rightarrow> (Inr (AnyPreambleResponse \<lparr>Rs = 0, Err = None\<rparr>, Some err), w)
           | None \<Rightarrow>
               (case svc ctx (Msg req) w of
                  ((rs, err), w') \<Rightarrow> (Inr (AnyPreambleResponse \<lparr>Rs = rs, Err = None\<rparr>, err), w')))
      | _ \<Rightarrow> (Inl InterfaceConversion, w))"

text \<open>The \<open>Endpoints\<close> struct collects the endpoints of the service.\<close>

record ('c, 'w) Endpoints =
  PreambleEndpoint :: "('c, 'w) Endpoint"

text \<open>
  \<open>Endpoints.Preamble\<close> (endpoints.go). \<open>resp, err := ...\<close> assigns the named result
  \<open>err\<close>; the bare \<open>return\<close> then yields \<open>(rs, err)\<close> with \<open>rs\<close> still zero.
  Otherwise the response is narrowed by a type assertion and only \<open>Rs\<close> is read.
\<close>

definition Endpoints_Preamble ::
  "('c, 'w) Endpoints \<Rightarrow> 'c \<Rightarrow> int64 \<Rightarrow> 'w \<Rightarrow> (panic + int64 \<times> error option) \<times> 'w" where
  "Endpoints_Preamble e ctx msg w =
     (case PreambleEndpoint e ctx (AnyPreambleRequest \<lparr>Msg = msg\<rparr>) w of
        (Inl p, w') \<Rightarrow> (Inl p, w')
      | (Inr (resp, Some err), w') \<Rightarrow> (Inr (0, Some err), w')
      | (Inr (resp, None), w') \<Rightarrow>
          (case resp of
             AnyPreambleResponse response \<Rightarrow> (Inr (Rs response, None), w')
           | _ \<Rightarrow> (Inl InterfaceConversion, w')))"

section \<open>Domain-to-wire error mapping\<close>

text \<open>
  Modelled from the spec: the \<open>status\<close> package of the gRPC library, which is not part
  of the repository. An error "carries a recognized wire status" when it is a status
  error; \<open>status.FromError\<close> then returns that status and \<open>ok = true\<close>, and for any
  other error it returns an \<open>Unknown\<close> status with the error's text and \<open>ok = false\<close>.
  \<open>status.Error(c, msg)\<close> builds the error that carries code \<open>c\<close> and message \<open>msg\<close>;
  for the code \<open>OK\<close> there is no error to build and it returns nil.
\<close>

record Status =
  Code :: Code
  Message :: string

fun status_FromError :: "error \<Rightarrow> Status \<times> bool" where
  "status_FromError (StatusError c m) = (\<lparr>Code = c, Message = m\<rparr>, True)"
| "status_FromError e = (\<lparr>Code = codes_Unknown, Message = error_Error e\<rparr>, False)"

definition status_Error :: "Code \<Rightarrow> string \<Rightarrow> error option" where
  "status_Error c msg = (if c = codes_OK then None else Some (StatusError c msg))"

text \<open>
  \<open>grpcEncodeError\<close> (the gRPC transport). The \<open>switch err\<close> has only a \<open>default\<close>
  branch.
\<close>

definition grpcEncodeError :: "error option \<Rightarrow> error option" where
  "grpcEncodeError err =
     (case err of
        None \<Rightarrow> None
      | Some e \<Rightarrow>
          (case status_FromError e of
             (st, ok) \<Rightarrow>
               if ok then status_Error (Code st) (Message st)
               else status_Error codes_Internal ''internal server error''))"

section \<open>Logging\<close>

text \<open>
  A go-kit logger receives alternating keys and values. The values logged here are
  strings, the message, an error (possibly nil) and a request of unknown type. A
  logger is represented by the context it prepends: \<open>log.With\<close> appends a pair to
  that context and \<open>level.Info\<close> puts the level in front of it.
\<close>

datatype logval = LogString string | LogInt int64 | LogError "error option" | LogAny any

type_synonym keyvals = "(string \<times> logval) list"

type_synonym Logger = keyvals

definition log_With :: "Logger \<Rightarrow> string \<Rightarrow> logval \<Rightarrow> Logger" where
  "log_With logger k v = logger @ [(k, v)]"

definition level_Info :: "Logger \<Rightarrow> Logger" where
  "level_Info logger = (''level'', LogString ''info'') # logger"

text \<open>
  The service-level logging middleware (logging.go) holds \<open>level.Info(logger)\<close> and
  defers one \<open>Log\<close> call, which reads the argument \<open>msg\<close> and the named result \<open>err\<close>
  at the time the method returns. This is the entry that deferred call writes. The
  call it wraps reads \<open>lm.next.Preamble(ctx, a, b)\<close> in the source: \<open>a\<close> and \<open>b\<close> are
  declared nowhere and the method takes one \<open>int64\<close>, so that line has no meaning to
  embed.
\<close>

definition loggingMiddleware_Preamble_entry :: "Logger \<Rightarrow> int64 \<Rightarrow> error option \<Rightarrow> keyvals" where
  "loggingMiddleware_Preamble_entry logger msg err =
     level_Info logger @ [(''method'', LogString ''Preable''), (''msg'', LogInt msg), (''err'', LogError err)]"

section \<open>The state of the server-side pipeline\<close>

text \<open>
  The middlewares of \<open>endpoints.New\<close> share mutable objects: the clock they read, the
  sink that spans and log entries go to, the rate limiter and the circuit breaker.
  The state of a pipeline holds them next to the state \<open>'s\<close> of the service. Times
  and durations are in nanoseconds; a call reads one clock value, the environment
  moves the clock between calls.
\<close>

type_synonym Tracer = string

datatype event =
    SpanStarted Tracer string
  | SpanFinished Tracer string bool
  | LogEntry keyvals

datatype State = StateClosed | StateHalfOpen | StateOpen

record Limiter =
  tokens :: nat
  last_time :: nat

record CircuitBreaker =
  state :: State
  requests :: nat
  consecutiveFailures :: nat
  expiry :: nat

record 's world =
  now :: nat
  trace :: "event list"
  limiter :: Limiter
  breaker :: CircuitBreaker
  service :: 's

definition emit :: "event \<Rightarrow> 's world \<Rightarrow> 's world" where
  "emit ev w = w\<lparr>trace := trace w @ [ev]\<rparr>"

definition Logger_Log :: "Logger \<Rightarrow> keyvals \<Rightarrow> 's world \<Rightarrow> 's world" where
  "Logger_Log logger kvs w = emit (LogEntry (logger @ kvs)) w"

text \<open>A service that works on its own state, run inside the pipeline's state.\<close>

definition on_service :: "('c, 's) Service \<Rightarrow> ('c, 's world) Service" where
  "on_service svc ctx msg w =
     (case svc ctx msg (service w) of (r, s') \<Rightarrow> (r, w\<lparr>service := s'\<rparr>))"

text \<open>What a middleware sees of the wrapped call: whether it failed, and its error.\<close>

fun failed :: "(panic + any \<times> error option) \<Rightarrow> bool" where
  "failed (Inl p) = True"
| "failed (Inr (resp, err)) = (err \<noteq> None)"

fun result_error :: "(panic + any \<times> error option) \<Rightarrow> error option" where
  "result_error (Inl p) = None"
| "result_error (Inr (resp, err)) = err"

section \<open>Rate limiting\<close>

text \<open>
  Modelled from the spec: the token-bucket limiter (\<open>golang.org/x/time/rate\<close>) and the
  erroring limiter middleware (go-kit \<open>ratelimit\<close>), which are not part of the
  repository. The bucket holds at most \<open>burst\<close> tokens and gains one token every
  \<open>interval\<close>; it is kept in units of a token's \<open>interval\<close>-th part, so that refilling
  is exact. \<open>Allow\<close> refills for the time elapsed, and takes a token if there is a
  whole one; a denied call leaves the bucket as it was. The bucket starts full.
\<close>

definition time_Second :: nat where
  "time_Second = 1000000000"

definition rate_Every :: "nat \<Rightarrow> nat" where
  "rate_Every interval = interval"

definition rate_NewLimiter :: "nat \<Rightarrow> nat \<Rightarrow> Limiter" where
  "rate_NewLimiter interval burst = \<lparr>tokens = burst * interval, last_time = 0\<rparr>"

definition Limiter_Allow :: "nat \<Rightarrow> nat \<Rightarrow> nat \<Rightarrow> Limiter \<Rightarrow> bool \<times> Limiter" where
  "Limiter_Allow interval burst t lim =
     (let avail = min (burst * interval) (tokens lim + (t - last_time lim))
      in if interval \<le> avail then (True, \<lparr>tokens = avail - interval, last_time = t\<rparr>)
         else (False, lim))"

definition limiter_Allow :: "nat \<Rightarrow> nat \<Rightarrow> 's world \<Rightarrow> bool \<times> 's world" where
  "limiter_Allow interval burst w =
     (case Limiter_Allow interval burst (now w) (limiter w) of
        (ok, lim) \<Rightarrow> (ok, w\<lparr>limiter := lim\<rparr>))"

text \<open>
  The middleware asks the limiter first. Denied, it returns \<open>(nil, ErrLimited)\<close>
  without calling the wrapped endpoint; granted, it returns what that endpoint
  returns.
\<close>

definition NewErroringLimiter :: "('w \<Rightarrow> bool \<times> 'w) \<Rightarrow> ('c, 'w) Endpoint \<Rightarrow> ('c, 'w) Endpoint" where
  "NewErroringLimiter allow next ctx request w =
     (case allow w of
        (ok, w') \<Rightarrow> if \<not> ok then (Inr (AnyNil, Some ErrLimited), w') else next ctx request w')"

section \<open>Circuit breaking\<close>

text \<open>
  Modelled from the spec: the circuit breaker (\<open>github.com/sony/gobreaker\<close>) and its
  middleware (go-kit \<open>circuitbreaker\<close>), which are not part of the repository. The
  configuration is the number of consecutive failures that opens the breaker, the
  cooldown (\<open>Timeout\<close>) and the number of trial calls admitted while half-open
  (\<open>MaxRequests\<close>); a setting left at zero takes the library's default (trip when
  the consecutive failures exceed 5, 60 seconds, one trial call).
  Closed: calls pass through, a failure increments the consecutive-failure counter, a
  success resets it, and reaching the threshold opens the breaker until
  \<open>now + Timeout\<close>. Open: calls fail at once with \<open>ErrOpenState\<close> as long as the
  expiry has not passed. After that the breaker is half-open: up to \<open>MaxRequests\<close>
  trial calls pass through, further ones fail with \<open>ErrTooManyRequests\<close>; a trial
  success closes the breaker, a trial failure opens it again. A panic of the wrapped
  call counts as a failure.
\<close>

record Settings =
  MaxRequests :: nat
  Timeout :: nat
  Threshold :: nat

definition NewCircuitBreaker_settings :: "Settings \<Rightarrow> Settings" where
  "NewCircuitBreaker_settings st =
     \<lparr>MaxRequests = (if MaxRequests st = 0 then 1 else MaxRequests st),
      Timeout = (if Timeout st = 0 then 60 * time_Second else Timeout st),
      Threshold = (if Threshold st = 0 then 6 else Threshold st)\<rparr>"

definition NewCircuitBreaker :: CircuitBreaker where
  "NewCircuitBreaker = \<lparr>state = StateClosed, requests = 0, consecutiveFailures = 0, expiry = 0\<rparr>"

definition setState :: "Settings \<Rightarrow> State \<Rightarrow> nat \<Rightarrow> CircuitBreaker \<Rightarrow> CircuitBreaker" where
  "setState cfg s t cb =
     \<lparr>state = s, requests = 0, consecutiveFailures = 0,
      expiry = (if s = StateOpen then t + Timeout cfg else 0)\<rparr>"

definition currentState :: "Settings \<Rightarrow> nat \<Rightarrow> CircuitBreaker \<Rightarrow> CircuitBreaker" where
  "currentState cfg t cb =
     (if state cb = StateOpen \<and> expiry cb < t then setState cfg StateHalfOpen t cb else cb)"

definition beforeRequest :: "Settings \<Rightarrow> nat \<Rightarrow> CircuitBreaker \<Rightarrow> error option \<times> CircuitBreaker" where
  "beforeRequest cfg t cb =
     (let cb' = currentState cfg t cb
      in if state cb' = StateOpen then (Some ErrOpenState, cb')
         else if state cb' = StateHalfOpen \<and> MaxRequests cfg \<le> requests cb'
           then (Some ErrTooManyRequests, cb')
         else (None, cb'\<lparr>requests := requests cb' + 1\<rparr>))"

definition afterRequest :: "Settings \<Rightarrow> nat \<Rightarrow> bool \<Rightarrow> CircuitBreaker \<Rightarrow> CircuitBreaker" where
  "afterRequest cfg t success cb =
     (case state cb of
        StateClosed \<Rightarrow>
          if success then cb\<lparr>consecutiveFailures := 0\<rparr>
          else if Threshold cfg \<le> consecutiveFailures cb + 1 then setState cfg StateOpen t cb
          else cb\<lparr>consecutiveFailures := consecutiveFailures cb + 1\<rparr>
      | StateHalfOpen \<Rightarrow>
          if success then setState cfg StateClosed t cb else setState cfg StateOpen t cb
      | StateOpen \<Rightarrow> cb)"

definition Gobreaker :: "Settings \<Rightarrow> ('c, 's world) Endpoint \<Rightarrow> ('c, 's world) Endpoint" where
  "Gobreaker cfg next ctx request w =
     (case beforeRequest cfg (now w) (breaker w) of
        (Some err, cb) \<Rightarrow> (Inr (AnyNil, Some err), w\<lparr>breaker := cb\<rparr>)
      | (None, cb) \<Rightarrow>
          (case next ctx request (w\<lparr>breaker := cb\<rparr>) of
             (res, w') \<Rightarrow>
               (res, w'\<lparr>breaker := afterRequest cfg (now w') (\<not> failed res) (breaker w')\<rparr>)))"

section \<open>Tracing and endpoint-level logging\<close>

text \<open>
  Modelled from the spec: the tracing middlewares (go-kit \<open>opentracing.TraceServer\<close>
  and \<open>zipkin.TraceEndpoint\<close>), which are not part of the repository. On entry the
  middleware starts a span named after the operation; on every exit it finishes the
  span with the outcome.
\<close>

definition traced :: "Tracer \<Rightarrow> string \<Rightarrow> ('c, 's world) Endpoint \<Rightarrow> ('c, 's world) Endpoint" where
  "traced tracer name next ctx request w =
     (case next ctx request (emit (SpanStarted tracer name) w) of
        (res, w') \<Rightarrow> (res, emit (SpanFinished tracer name (failed res)) w'))"

definition opentracing_TraceServer ::
  "Tracer \<Rightarrow> string \<Rightarrow> ('c, 's world) Endpoint \<Rightarrow> ('c, 's world) Endpoint" where
  "opentracing_TraceServer otTracer method = traced otTracer method"

definition zipkin_TraceEndpoint ::
  "Tracer \<Rightarrow> string \<Rightarrow> ('c, 's world) Endpoint \<Rightarrow> ('c, 's world) Endpoint" where
  "zipkin_TraceEndpoint zipkinTracer method = traced zipkinTracer method"

text \<open>
  Modelled from the spec: the endpoint-level \<open>LoggingMiddleware\<close> of the \<open>endpoints\<close>
  package, whose file is not among the sources. It invokes the wrapped endpoint and
  then, whether the call succeeded or not, writes one entry with the logger's
  context (the operation name), the request and the resulting error. During a panic
  the named result is still nil.
\<close>

definition LoggingMiddleware :: "Logger \<Rightarrow> ('c, 's world) Endpoint \<Rightarrow> ('c, 's world) Endpoint" where
  "LoggingMiddleware logger next ctx request w =
     (case next ctx request w of
        (res, w') \<Rightarrow>
          (res, Logger_Log logger [(''request'', LogAny request), (''err'', LogError (result_error res))] w'))"

section \<open>The endpoint set of the server\<close>

text \<open>
  \<open>endpoints.New\<close> (endpoints.go). The endpoint of \<open>MakePreambleEndpoint\<close> is wrapped
  by the rate limiter first, then by the circuit breaker, the two tracing
  middlewares and the logging middleware; each assignment wraps the endpoint built
  so far, so the middleware applied last is the outermost one. The limiter gives
  one token per second with a burst of 100, the breaker has empty settings, and the
  method name is \<open>"sum"\<close>.
\<close>

definition New ::
  "(PreambleRequest \<Rightarrow> error option) \<Rightarrow> ('c, 's) Service \<Rightarrow> Logger \<Rightarrow> Tracer \<Rightarrow> Tracer
     \<Rightarrow> ('c, 's world) Endpoints" where
  "New vld svc logger otTracer zipkinTracer =
     (let method = ''sum'';
          preambleEndpoint = MakePreambleEndpoint vld (on_service svc);
          preambleEndpoint = NewErroringLimiter (limiter_Allow (rate_Every time_Second) 100) preambleEndpoint;
          preambleEndpoint =
            Gobreaker (NewCircuitBreaker_settings \<lparr>MaxRequests = 0, Timeout = 0, Threshold = 0\<rparr>) preambleEndpoint;
          preambleEndpoint = opentracing_TraceServer otTracer method preambleEndpoint;
          preambleEndpoint = zipkin_TraceEndpoint zipkinTracer method preambleEndpoint;
          preambleEndpoint = LoggingMiddleware (log_With logger ''method'' (LogString method)) preambleEndpoint
      in \<lparr>PreambleEndpoint = preambleEndpoint\<rparr>)"

text \<open>The state right after \<open>New\<close>: a full bucket, a closed breaker, nothing traced.\<close>

definition New_world :: "nat \<Rightarrow> 's \<Rightarrow> 's world" where
  "New_world t s =
     \<lparr>now = t, trace = [], limiter = rate_NewLimiter (rate_Every time_Second) 100,
      breaker = NewCircuitBreaker, service = s\<rparr>"



definition counted :: "('c, 'w) Service \<Rightarrow> ('c, nat \<times> 'w) Service" where
  "counted svc ctx msg nw =
     (case svc ctx msg (snd nw) of (r, w') \<Rightarrow> (r, (Suc (fst nw), w')))"

definition rejectAll :: "error \<Rightarrow> PreambleRequest \<Rightarrow> error option" where
  "rejectAll e r = Some e"

definition constEndpoint :: "any \<times> error option \<Rightarrow> ('c, 'w) Endpoint" where
  "constEndpoint res ctx request w = (Inr res, w)"

section \<open>Properties of the stub service\<close>

text \<open>
  C3. For every context and every message, the stub service's \<open>Preamble\<close> returns the
  message itself together with a nil error, and has no effect on the state: the
  business logic is an identity echo that never fails.
\<close>

theorem stub_Preamble_echo:
  "stubPreamblesvcService_Preamble ctx msg w = ((msg, None), w)"
  by (simp add: stubPreamblesvcService_Preamble_def)

section \<open>Properties of the undecorated endpoint\<close>




text \<open>
  C2. For every request whose validation returns a non-nil error, the endpoint
  returns the empty \<open>PreambleResponse\<close> together with exactly that error and leaves
  the state as it was, whatever the service is: the service is not invoked. In
  particular a service that counts its invocations keeps its counter.
\<close>

theorem validation_short_circuit:
  assumes "vld req = Some e"
  shows "MakePreambleEndpoint vld svc ctx (AnyPreambleRequest req) w
           = (Inr (AnyPreambleResponse \<lparr>Rs = 0, Err = None\<rparr>, Some e), w)
         \<and> snd (MakePreambleEndpoint vld (counted svc) ctx (AnyPreambleRequest req) (n, w)) = (n, w)"
  using assms by (simp add: MakePreambleEndpoint_def)

theorem validation_short_circuit_witness:
  "rejectAll (DomainError ''bad msg'') \<lparr>Msg = 3\<rparr> = Some (DomainError ''bad msg'')
   \<and> MakePreambleEndpoint (rejectAll (DomainError ''bad msg'')) stubPreamblesvcService_Preamble ()
         (AnyPreambleRequest \<lparr>Msg = 3\<rparr>) ()
       = (Inr (AnyPreambleResponse \<lparr>Rs = 0, Err = None\<rparr>, Some (DomainError ''bad msg'')), ())
   \<and> snd (MakePreambleEndpoint (rejectAll (DomainError ''bad msg'')) (counted stubPreamblesvcService_Preamble) ()
         (AnyPreambleRequest \<lparr>Msg = 3\<rparr>) (4, ())) = (4, ())"
proof -
  have h: "rejectAll (DomainError ''bad msg'') \<lparr>Msg = 3\<rparr> = Some (DomainError ''bad msg'')"
    by (simp add: rejectAll_def)
  from validation_short_circuit
         [where vld = "rejectAll (DomainError ''bad msg'')" and req = "\<lparr>Msg = 3\<rparr>"
            and svc = stubPreamblesvcService_Preamble and ctx = "()" and w = "()" and n = 4, OF h]
  show ?thesis using h by simp
qed

text \<open>
  C9. For every request that passes validation, when the service call succeeds
  (returns a nil error), the undecorated endpoint returns a nil error and a
  \<open>PreambleResponse\<close> that carries the service's result, has a nil \<open>Err\<close> field, the
  status \<open>http.StatusOK\<close> and an empty header set.
\<close>

theorem endpoint_success_response:
  assumes "vld req = None" and "svc ctx (Msg req) w = ((rs, None), w')"
  shows "\<exists>r. MakePreambleEndpoint vld svc ctx (AnyPreambleRequest req) w
                = (Inr (AnyPreambleResponse r, None), w')
             \<and> Rs r = rs \<and> Err r = None \<and> StatusCode r = http_StatusOK \<and> Headers r = Map.empty"
  using assms by (simp add: MakePreambleEndpoint_def StatusCode_def Headers_def)

theorem endpoint_success_response_witness:
  "validate \<lparr>Msg = 5\<rparr> = None
   \<and> stubPreamblesvcService_Preamble () (Msg \<lparr>Msg = 5\<rparr>) () = ((5, None), ())
   \<and> (\<exists>r. MakePreambleEndpoint validate stubPreamblesvcService_Preamble () (AnyPreambleRequest \<lparr>Msg = 5\<rparr>) ()
                = (Inr (AnyPreambleResponse r, None), ())
             \<and> Rs r = 5 \<and> Err r = None \<and> StatusCode r = http_StatusOK \<and> Headers r = Map.empty)"
proof -
  have h1: "validate \<lparr>Msg = 5\<rparr> = None"
    by (simp add: validate_def)
  have h2: "stubPreamblesvcService_Preamble () (Msg \<lparr>Msg = 5\<rparr>) () = ((5, None), ())"
    by (simp add: stubPreamblesvcService_Preamble_def)
  from endpoint_success_response
         [where vld = validate and req = "\<lparr>Msg = 5\<rparr>" and svc = stubPreamblesvcService_Preamble
            and ctx = "()" and w = "()", OF h1 h2]
  show ?thesis using h1 h2 by simp
qed

section \<open>Properties of the endpoint set used as a service\<close>

text \<open>
  C10. \<open>Endpoints.Preamble\<close> returns \<open>(0, err)\<close> whenever \<open>PreambleEndpoint\<close> returns
  a non-nil error as its second value; when the second value is nil and the first
  is a \<open>PreambleResponse\<close>, it returns \<open>(resp.Rs, nil)\<close> whatever the \<open>Err\<close> field of
  that response holds, so a response that carries a non-nil \<open>Err\<close> next to a nil
  second value is reported as success.
\<close>

theorem Endpoints_Preamble_ignores_Err:
  "(PreambleEndpoint e ctx (AnyPreambleRequest \<lparr>Msg = msg\<rparr>) w = (Inr (resp, Some err), w')
      \<longrightarrow> Endpoints_Preamble e ctx msg w = (Inr (0, Some err), w'))
   \<and> (PreambleEndpoint e ctx (AnyPreambleRequest \<lparr>Msg = msg\<rparr>) w
        = (Inr (AnyPreambleResponse \<lparr>Rs = rs, Err = x\<rparr>, None), w')
      \<longrightarrow> Endpoints_Preamble e ctx msg w = (Inr (rs, None), w'))"
  by (simp add: Endpoints_Preamble_def)

theorem Endpoints_Preamble_ignores_Err_witness:
  "PreambleEndpoint \<lparr>PreambleEndpoint = constEndpoint (AnyNil, Some ErrLimited)\<rparr> ()
       (AnyPreambleRequest \<lparr>Msg = 5\<rparr>) () = (Inr (AnyNil, Some ErrLimited), ())
   \<and> Endpoints_Preamble \<lparr>PreambleEndpoint = constEndpoint (AnyNil, Some ErrLimited)\<rparr> () 5 ()
       = (Inr (0, Some ErrLimited), ())
   \<and> PreambleEndpoint
       \<lparr>PreambleEndpoint = constEndpoint (AnyPreambleResponse \<lparr>Rs = 9, Err = Some (DomainError ''lost'')\<rparr>, None)\<rparr> ()
       (AnyPreambleRequest \<lparr>Msg = 5\<rparr>) ()
       = (Inr (AnyPreambleResponse \<lparr>Rs = 9, Err = Some (DomainError ''lost'')\<rparr>, None), ())
   \<and> Endpoints_Preamble
       \<lparr>PreambleEndpoint = constEndpoint (AnyPreambleResponse \<lparr>Rs = 9, Err = Some (DomainError ''lost'')\<rparr>, None)\<rparr> () 5 ()
       = (Inr (9, None), ())"
  using Endpoints_Preamble_ignores_Err
          [of "\<lparr>PreambleEndpoint = constEndpoint (AnyNil, Some ErrLimited)\<rparr>" "()" 5 "()" AnyNil ErrLimited "()"]
        Endpoints_Preamble_ignores_Err
          [of "\<lparr>PreambleEndpoint = constEndpoint (AnyPreambleResponse \<lparr>Rs = 9, Err = Some (DomainError ''lost'')\<rparr>, None)\<rparr>"
              "()" 5 "()" _ _ _ 9 "Some (DomainError ''lost'')"]
  by (simp add: constEndpoint_def)

section \<open>Domain-to-wire error mapping: properties\<close>

text \<open>
  C5. \<open>grpcEncodeError\<close> is idempotent: applied to its own result it returns that
  result again, so the wire status (code and message) that \<open>status.FromError\<close>
  reads from the twice-mapped error is the one it reads from the once-mapped error;
  and nil is mapped to nil.
\<close>

theorem grpcEncodeError_idempotent:
  "grpcEncodeError (grpcEncodeError e) = grpcEncodeError e
   \<and> map_option status_FromError (grpcEncodeError (grpcEncodeError e)) = map_option status_FromError (grpcEncodeError e)
   \<and> grpcEncodeError None = None"
proof -
  have idem: "grpcEncodeError (grpcEncodeError e) = grpcEncodeError e"
  proof (cases e)
    case None
    then show ?thesis by (simp add: grpcEncodeError_def)
  next
    case (Some x)
    then show ?thesis
      by (cases x) (simp_all add: grpcEncodeError_def status_Error_def)
  qed
  then show ?thesis by (simp add: grpcEncodeError_def)
qed

section \<open>Auxiliary facts about the middlewares\<close>

text \<open>What the breaker does before a call, by state.\<close>

lemma beforeRequest_open:
  "state cb = StateOpen \<Longrightarrow> t \<le> expiry cb \<Longrightarrow> beforeRequest cfg t cb = (Some ErrOpenState, cb)"
  by (simp add: beforeRequest_def currentState_def)



lemma Gobreaker_open:
  "state (breaker w) = StateOpen \<Longrightarrow> now w \<le> expiry (breaker w) \<Longrightarrow>
     Gobreaker cfg next ctx request w = (Inr (AnyNil, Some ErrOpenState), w)"
  by (simp add: Gobreaker_def beforeRequest_open)








text \<open>Which parts of the state each layer of the pipeline leaves alone.\<close>

lemma MakePreambleEndpoint_frame:
  "trace (snd (MakePreambleEndpoint vld (on_service svc) ctx r w)) = trace w
   \<and> breaker (snd (MakePreambleEndpoint vld (on_service svc) ctx r w)) = breaker w
   \<and> limiter (snd (MakePreambleEndpoint vld (on_service svc) ctx r w)) = limiter w
   \<and> now (snd (MakePreambleEndpoint vld (on_service svc) ctx r w)) = now w"
  by (simp add: MakePreambleEndpoint_def on_service_def split: any.splits option.splits prod.splits)

lemma limiter_Allow_frame:
  "trace (snd (limiter_Allow i b w)) = trace w
   \<and> breaker (snd (limiter_Allow i b w)) = breaker w
   \<and> now (snd (limiter_Allow i b w)) = now w
   \<and> service (snd (limiter_Allow i b w)) = service w"
  by (simp add: limiter_Allow_def split: prod.splits)

lemma limiter_Allow_denied:
  "\<not> fst (limiter_Allow i b w) \<Longrightarrow> snd (limiter_Allow i b w) = w"
  by (auto simp: limiter_Allow_def Limiter_Allow_def Let_def split: if_splits)

lemma limited_frame:
  "trace (snd (NewErroringLimiter (limiter_Allow i b) (MakePreambleEndpoint vld (on_service svc)) ctx r w)) = trace w
   \<and> breaker (snd (NewErroringLimiter (limiter_Allow i b) (MakePreambleEndpoint vld (on_service svc)) ctx r w)) = breaker w
   \<and> now (snd (NewErroringLimiter (limiter_Allow i b) (MakePreambleEndpoint vld (on_service svc)) ctx r w)) = now w"
proof (cases "limiter_Allow i b w")
  case (Pair ok w')
  with limiter_Allow_frame [of i b w]
  have f: "trace w' = trace w" "breaker w' = breaker w" "now w' = now w" by simp_all
  show ?thesis
    using MakePreambleEndpoint_frame [of vld svc ctx r w'] f
    by (simp add: NewErroringLimiter_def Pair)
qed

lemma Gobreaker_trace:
  assumes "\<And>w. trace (snd (next ctx r w)) = trace w"
  shows "trace (snd (Gobreaker cfg next ctx r w)) = trace w"
proof (cases "beforeRequest cfg (now w) (breaker w)")
  case (Pair e cb)
  show ?thesis
  proof (cases e)
    case None
    obtain res w' where n: "next ctx r (w\<lparr>breaker := cb\<rparr>) = (res, w')"
      by (cases "next ctx r (w\<lparr>breaker := cb\<rparr>)")
    from assms [of "w\<lparr>breaker := cb\<rparr>"] n have "trace w' = trace w" by simp
    then show ?thesis by (simp add: Gobreaker_def Pair None n)
  next
    case (Some err)
    then show ?thesis by (simp add: Gobreaker_def Pair)
  qed
qed


text \<open>The wrapping middlewares, written with projections.\<close>

lemma NewErroringLimiter_eq:
  "NewErroringLimiter allow next ctx request w =
     (if \<not> fst (allow w) then (Inr (AnyNil, Some ErrLimited), snd (allow w))
      else next ctx request (snd (allow w)))"
  by (simp add: NewErroringLimiter_def split: prod.splits)

lemma traced_eq:
  "traced tr name next ctx r w =
     (fst (next ctx r (emit (SpanStarted tr name) w)),
      emit (SpanFinished tr name (failed (fst (next ctx r (emit (SpanStarted tr name) w)))))
        (snd (next ctx r (emit (SpanStarted tr name) w))))"
  by (simp add: traced_def split: prod.splits)

lemma LoggingMiddleware_eq:
  "LoggingMiddleware logger next ctx r w =
     (fst (next ctx r w),
      Logger_Log logger [(''request'', LogAny r), (''err'', LogError (result_error (fst (next ctx r w))))]
        (snd (next ctx r w)))"
  by (simp add: LoggingMiddleware_def split: prod.splits)

text \<open>The endpoint of \<open>New\<close>: its nesting, what it traces, and what an open breaker cuts off.\<close>

lemma New_unfold:
  "PreambleEndpoint (New vld svc logger otTracer zipkinTracer)
     = LoggingMiddleware (log_With logger ''method'' (LogString ''sum''))
         (zipkin_TraceEndpoint zipkinTracer ''sum''
           (opentracing_TraceServer otTracer ''sum''
             (Gobreaker (NewCircuitBreaker_settings \<lparr>MaxRequests = 0, Timeout = 0, Threshold = 0\<rparr>)
               (NewErroringLimiter (limiter_Allow (rate_Every time_Second) 100)
                 (MakePreambleEndpoint vld (on_service svc))))))"
  by (simp add: New_def Let_def)

lemma New_trace:
  "trace (snd (PreambleEndpoint (New vld svc logger otTracer zipkinTracer) ctx request w)) =
       trace w @ [SpanStarted zipkinTracer ''sum'', SpanStarted otTracer ''sum'',
                  SpanFinished otTracer ''sum''
                    (failed (fst (PreambleEndpoint (New vld svc logger otTracer zipkinTracer) ctx request w))),
                  SpanFinished zipkinTracer ''sum''
                    (failed (fst (PreambleEndpoint (New vld svc logger otTracer zipkinTracer) ctx request w))),
                  LogEntry (logger @ [(''method'', LogString ''sum''), (''request'', LogAny request),
                    (''err'', LogError (result_error
                       (fst (PreambleEndpoint (New vld svc logger otTracer zipkinTracer) ctx request w))))])]"
proof -
  let ?inner = "Gobreaker (NewCircuitBreaker_settings \<lparr>MaxRequests = 0, Timeout = 0, Threshold = 0\<rparr>)
               (NewErroringLimiter (limiter_Allow (rate_Every time_Second) 100)
                 (MakePreambleEndpoint vld (on_service svc)))"
  have inner: "trace (snd (?inner ctx request v)) = trace v" for v :: "'a world"
    by (rule Gobreaker_trace) (simp add: limited_frame)
  show ?thesis
    unfolding New_unfold
    by (simp add: LoggingMiddleware_eq zipkin_TraceEndpoint_def opentracing_TraceServer_def traced_eq
          Logger_Log_def emit_def log_With_def inner)
qed

lemma New_open:
  assumes "state (breaker w) = StateOpen" and "now w \<le> expiry (breaker w)"
  shows "fst (PreambleEndpoint (New vld svc logger otTracer zipkinTracer) ctx request w)
           = Inr (AnyNil, Some ErrOpenState)
         \<and> limiter (snd (PreambleEndpoint (New vld svc logger otTracer zipkinTracer) ctx request w)) = limiter w
         \<and> breaker (snd (PreambleEndpoint (New vld svc logger otTracer zipkinTracer) ctx request w)) = breaker w
         \<and> service (snd (PreambleEndpoint (New vld svc logger otTracer zipkinTracer) ctx request w)) = service w"
  unfolding New_unfold
  using assms
  by (simp add: LoggingMiddleware_eq zipkin_TraceEndpoint_def opentracing_TraceServer_def traced_eq
          Logger_Log_def emit_def Gobreaker_open)

section \<open>Properties of the middleware chain\<close>

text \<open>
  C4, as stated, fails. With a closed breaker and an empty token bucket the rate
  limiter rejects the call, and still a log entry is written for it, after both
  spans have finished; the breaker has counted the rejection as a failure. So
  logging is not inside the rate limiter and the breaker, and the rate limiter is
  not outside the breaker.
\<close>

theorem New_order_counterexample:
  "PreambleEndpoint (New validate stubPreamblesvcService_Preamble [] ''ot'' ''zipkin'') ()
       (AnyPreambleRequest \<lparr>Msg = 5\<rparr>)
       \<lparr>now = 0, trace = [], limiter = \<lparr>tokens = 0, last_time = 0\<rparr>, breaker = NewCircuitBreaker,
        service = ()\<rparr>
     = (Inr (AnyNil, Some ErrLimited),
        \<lparr>now = 0,
         trace = [SpanStarted ''zipkin'' ''sum'', SpanStarted ''ot'' ''sum'',
                  SpanFinished ''ot'' ''sum'' True, SpanFinished ''zipkin'' ''sum'' True,
                  LogEntry [(''method'', LogString ''sum''),
                            (''request'', LogAny (AnyPreambleRequest \<lparr>Msg = 5\<rparr>)),
                            (''err'', LogError (Some ErrLimited))]],
         limiter = \<lparr>tokens = 0, last_time = 0\<rparr>,
         breaker = \<lparr>state = StateClosed, requests = 1, consecutiveFailures = 1, expiry = 0\<rparr>,
         service = ()\<rparr>)"
  by (simp add: New_def Let_def LoggingMiddleware_def zipkin_TraceEndpoint_def opentracing_TraceServer_def
        traced_def Logger_Log_def emit_def log_With_def Gobreaker_def beforeRequest_def currentState_def
        afterRequest_def setState_def NewCircuitBreaker_def NewCircuitBreaker_settings_def
        NewErroringLimiter_def limiter_Allow_def Limiter_Allow_def rate_Every_def time_Second_def)

text \<open>
  C4, amended. The endpoint built by \<open>endpoints.New\<close> is wrapped, outermost to
  innermost, by logging, zipkin tracing, opentracing tracing, circuit breaking and
  rate limiting, the rate limiter being directly around the endpoint of
  \<open>MakePreambleEndpoint\<close>. On every call, also one that the breaker or the limiter
  rejects, the zipkin span and then the opentracing span are started, both are
  finished with the outcome of the call, and one log entry with the method name,
  the request and the resulting error is written after them. When the breaker is
  open and its expiry has not passed, the call fails with the breaker's error and
  neither the rate limiter nor the service is touched.
\<close>

theorem New_middleware_order:
  "PreambleEndpoint (New vld svc logger otTracer zipkinTracer)
     = LoggingMiddleware (log_With logger ''method'' (LogString ''sum''))
         (zipkin_TraceEndpoint zipkinTracer ''sum''
           (opentracing_TraceServer otTracer ''sum''
             (Gobreaker (NewCircuitBreaker_settings \<lparr>MaxRequests = 0, Timeout = 0, Threshold = 0\<rparr>)
               (NewErroringLimiter (limiter_Allow (rate_Every time_Second) 100)
                 (MakePreambleEndpoint vld (on_service svc))))))
   \<and> trace (snd (PreambleEndpoint (New vld svc logger otTracer zipkinTracer) ctx request w)) =
       trace w @ [SpanStarted zipkinTracer ''sum'', SpanStarted otTracer ''sum'',
                  SpanFinished otTracer ''sum''
                    (failed (fst (PreambleEndpoint (New vld svc logger otTracer zipkinTracer) ctx request w))),
                  SpanFinished zipkinTracer ''sum''
                    (failed (fst (PreambleEndpoint (New vld svc logger otTracer zipkinTracer) ctx request w))),
                  LogEntry (logger @ [(''method'', LogString ''sum''), (''request'', LogAny request),
                    (''err'', LogError (result_error
                       (fst (PreambleEndpoint (New vld svc logger otTracer zipkinTracer) ctx request w))))])]
   \<and> (state (breaker w) = StateOpen \<and> now w \<le> expiry (breaker w) \<longrightarrow>
        fst (PreambleEndpoint (New vld svc logger otTracer zipkinTracer) ctx request w)
           = Inr (AnyNil, Some ErrOpenState)
         \<and> limiter (snd (PreambleEndpoint (New vld svc logger otTracer zipkinTracer) ctx request w)) = limiter w
         \<and> breaker (snd (PreambleEndpoint (New vld svc logger otTracer zipkinTracer) ctx request w)) = breaker w
         \<and> service (snd (PreambleEndpoint (New vld svc logger otTracer zipkinTracer) ctx request w)) = service w)"
  using New_unfold [of vld svc logger otTracer zipkinTracer]
        New_trace [of vld svc logger otTracer zipkinTracer ctx request w]
        New_open [of w vld svc logger otTracer zipkinTracer ctx request]
  by blast

theorem New_middleware_order_witness:
  "state (breaker (New_world 5 ()\<lparr>breaker := \<lparr>state = StateOpen, requests = 0, consecutiveFailures = 0, expiry = 10\<rparr>\<rparr>)) = StateOpen
   \<and> fst (PreambleEndpoint (New validate stubPreamblesvcService_Preamble [] ''ot'' ''zipkin'') ()
        (AnyPreambleRequest \<lparr>Msg = 5\<rparr>)
        (New_world 5 ()\<lparr>breaker := \<lparr>state = StateOpen, requests = 0, consecutiveFailures = 0, expiry = 10\<rparr>\<rparr>))
       = Inr (AnyNil, Some ErrOpenState)
   \<and> limiter (snd (PreambleEndpoint (New validate stubPreamblesvcService_Preamble [] ''ot'' ''zipkin'') ()
        (AnyPreambleRequest \<lparr>Msg = 5\<rparr>)
        (New_world 5 ()\<lparr>breaker := \<lparr>state = StateOpen, requests = 0, consecutiveFailures = 0, expiry = 10\<rparr>\<rparr>)))
       = rate_NewLimiter (rate_Every time_Second) 100
   \<and> trace (snd (PreambleEndpoint (New validate stubPreamblesvcService_Preamble [] ''ot'' ''zipkin'') ()
        (AnyPreambleRequest \<lparr>Msg = 5\<rparr>)
        (New_world 5 ()\<lparr>breaker := \<lparr>state = StateOpen, requests = 0, consecutiveFailures = 0, expiry = 10\<rparr>\<rparr>)))
       = [SpanStarted ''zipkin'' ''sum'', SpanStarted ''ot'' ''sum'',
          SpanFinished ''ot'' ''sum'' True, SpanFinished ''zipkin'' ''sum'' True,
          LogEntry [(''method'', LogString ''sum''),
                    (''request'', LogAny (AnyPreambleRequest \<lparr>Msg = 5\<rparr>)),
                    (''err'', LogError (Some ErrOpenState))]]"
proof -
  let ?w = "New_world 5 ()\<lparr>breaker := \<lparr>state = StateOpen, requests = 0, consecutiveFailures = 0, expiry = 10\<rparr>\<rparr>"
  let ?ep = "PreambleEndpoint (New validate stubPreamblesvcService_Preamble [] ''ot'' ''zipkin'')"
  have h: "state (breaker ?w) = StateOpen \<and> now ?w \<le> expiry (breaker ?w)"
    by (simp add: New_world_def)
  note order = New_middleware_order [of validate stubPreamblesvcService_Preamble "[]" "''ot''" "''zipkin''" "()"
          "AnyPreambleRequest \<lparr>Msg = 5\<rparr>" ?w]
  from order h have r: "fst (?ep () (AnyPreambleRequest \<lparr>Msg = 5\<rparr>) ?w) = Inr (AnyNil, Some ErrOpenState)"
    and l: "limiter (snd (?ep () (AnyPreambleRequest \<lparr>Msg = 5\<rparr>) ?w)) = limiter ?w"
    by blast+
  from order have t: "trace (snd (?ep () (AnyPreambleRequest \<lparr>Msg = 5\<rparr>) ?w)) =
       trace ?w @ [SpanStarted ''zipkin'' ''sum'', SpanStarted ''ot'' ''sum'',
                  SpanFinished ''ot'' ''sum'' (failed (fst (?ep () (AnyPreambleRequest \<lparr>Msg = 5\<rparr>) ?w))),
                  SpanFinished ''zipkin'' ''sum'' (failed (fst (?ep () (AnyPreambleRequest \<lparr>Msg = 5\<rparr>) ?w))),
                  LogEntry ([] @ [(''method'', LogString ''sum''),
                    (''request'', LogAny (AnyPreambleRequest \<lparr>Msg = 5\<rparr>)),
                    (''err'', LogError (result_error (fst (?ep () (AnyPreambleRequest \<lparr>Msg = 5\<rparr>) ?w))))])]"
    by blast
  have "trace ?w = []" "limiter ?w = rate_NewLimiter (rate_Every time_Second) 100"
    by (simp_all add: New_world_def)
  with h r l t show ?thesis by simp
qed

text \<open>
  C6. When the limiter denies a token, the rate-limited endpoint returns
  \<open>(nil, ErrLimited)\<close> ("rate limit exceeded") together with the state the limiter
  left, whatever the wrapped endpoint is: that endpoint, and so the service, is not
  invoked. When the limiter grants a token, the result is exactly the wrapped
  endpoint's result on the state the limiter left. For the token bucket a denied
  call leaves the whole state as it was.
\<close>

theorem limiter_gate:
  "(\<not> fst (allow w) \<longrightarrow>
      NewErroringLimiter allow next ctx request w = (Inr (AnyNil, Some ErrLimited), snd (allow w)))
   \<and> (fst (allow w) \<longrightarrow>
      NewErroringLimiter allow next ctx request w = next ctx request (snd (allow w)))
   \<and> (\<not> fst (limiter_Allow i b v) \<longrightarrow>
      NewErroringLimiter (limiter_Allow i b) next' ctx' request v = (Inr (AnyNil, Some ErrLimited), v))"
proof -
  have "NewErroringLimiter (limiter_Allow i b) next' ctx' request v = (Inr (AnyNil, Some ErrLimited), v)"
    if "\<not> fst (limiter_Allow i b v)"
    using that limiter_Allow_denied [OF that] by (simp add: NewErroringLimiter_eq)
  then show ?thesis
    by (simp add: NewErroringLimiter_eq)
qed

theorem limiter_gate_witness:
  "\<not> fst (limiter_Allow (rate_Every time_Second) 100 (New_world 0 (0::nat, ())\<lparr>limiter := \<lparr>tokens = 0, last_time = 0\<rparr>\<rparr>))
   \<and> NewErroringLimiter (limiter_Allow (rate_Every time_Second) 100)
        (MakePreambleEndpoint validate (on_service (counted stubPreamblesvcService_Preamble))) ()
        (AnyPreambleRequest \<lparr>Msg = 5\<rparr>)
        (New_world 0 (0, ())\<lparr>limiter := \<lparr>tokens = 0, last_time = 0\<rparr>\<rparr>)
       = (Inr (AnyNil, Some ErrLimited), New_world 0 (0, ())\<lparr>limiter := \<lparr>tokens = 0, last_time = 0\<rparr>\<rparr>)
   \<and> fst (limiter_Allow (rate_Every time_Second) 100 (New_world 0 (0::nat, ())))
   \<and> NewErroringLimiter (limiter_Allow (rate_Every time_Second) 100)
        (MakePreambleEndpoint validate (on_service (counted stubPreamblesvcService_Preamble))) ()
        (AnyPreambleRequest \<lparr>Msg = 5\<rparr>) (New_world 0 (0, ()))
       = MakePreambleEndpoint validate (on_service (counted stubPreamblesvcService_Preamble)) ()
           (AnyPreambleRequest \<lparr>Msg = 5\<rparr>)
           (snd (limiter_Allow (rate_Every time_Second) 100 (New_world 0 (0, ()))))"
proof -
  have deny: "\<not> fst (limiter_Allow (rate_Every time_Second) 100 (New_world 0 s\<lparr>limiter := \<lparr>tokens = 0, last_time = 0\<rparr>\<rparr>))" for s :: 'a
    by (simp add: limiter_Allow_def Limiter_Allow_def New_world_def rate_Every_def time_Second_def)
  have grant: "fst (limiter_Allow (rate_Every time_Second) 100 (New_world 0 s))" for s :: 'a
    by (simp add: limiter_Allow_def Limiter_Allow_def New_world_def rate_NewLimiter_def rate_Every_def time_Second_def)
  show ?thesis
    using limiter_gate [of "limiter_Allow (rate_Every time_Second) 100" "New_world 0 (0, ())"
            "MakePreambleEndpoint validate (on_service (counted stubPreamblesvcService_Preamble))" "()"
            "AnyPreambleRequest \<lparr>Msg = 5\<rparr>" "rate_Every time_Second" 100
            "New_world 0 (0, ())\<lparr>limiter := \<lparr>tokens = 0, last_time = 0\<rparr>\<rparr>"
            "MakePreambleEndpoint validate (on_service (counted stubPreamblesvcService_Preamble))" "()"]
          deny [of "(0, ())"] grant [of "(0, ())"]
    by blast
qed



section \<open>The service-level logging middleware\<close>

text \<open>
  C8. The entry that the deferred \<open>Log\<close> call writes for \<open>Preamble(ctx, 5)\<close>
  returning a nil error: it holds the level, the message and the error, and under
  \<open>method\<close> the misspelt name \<open>Preable\<close>, which is not the operation's name.
\<close>

theorem logging_entry_method_name:
  "loggingMiddleware_Preamble_entry [] 5 None
     = [(''level'', LogString ''info''), (''method'', LogString ''Preable''),
        (''msg'', LogInt 5), (''err'', LogError None)]
   \<and> ''Preable'' \<noteq> ''Preamble''"
  by (simp add: loggingMiddleware_Preamble_entry_def level_Info_def)

end
